theory Spec2Isabelle
  imports Main "HOL-Library.Word"
begin

section \<open>Object layout of the host toolchain\<close>

text \<open>
  \<^verbatim>\<open>AlignOf.h\<close> has no run-time code: every constant it defines is read off
  \<^verbatim>\<open>sizeof\<close> of a synthetic aggregate or union. A type is therefore represented by
  what the toolchain reports about it, its size and its minimum alignment in bytes:
  the alignment the toolchain gives a member of that type, which the header's own
  comment sets apart from a preferred alignment such as that of GCC's
  \<^verbatim>\<open>__alignof__\<close>.
\<close>

record ctype =
  sizeof :: nat
  alignof :: nat

text \<open>
  \<^verbatim>\<open>std::size_t\<close> and \<^verbatim>\<open>unsigned int\<close> of the LP64 and LLP64 data models. Sizes
  and alignments themselves are natural numbers; the two machine types matter only
  where the header computes with them.
\<close>

type_synonym size_t = "64 word"
type_synonym unsigned = "32 word"

text \<open>The smallest multiple of \<open>a\<close> that is at least \<open>n\<close>.\<close>

definition round_up :: "nat \<Rightarrow> nat \<Rightarrow> nat" where
  "round_up n a = ((n + a - 1) div a) * a"

text \<open>
  Modelled from the spec: the layout rule of the host toolchain for aggregates and
  unions, which the header relies on and which is not part of the repository.
  Each member of an aggregate is placed, in declaration order, at the smallest offset
  not below the end of the previous member that satisfies its alignment; the alignment
  of an aggregate or union is the maximum member alignment; the size of an aggregate
  is the end of its last member, and the size of a union the maximum member size,
  each rounded up to the alignment of the whole.
\<close>

fun place_members :: "nat \<Rightarrow> ctype list \<Rightarrow> nat" where
  "place_members off [] = off"
| "place_members off (m # ms) = place_members (round_up off (alignof m) + sizeof m) ms"

fun max_align :: "ctype list \<Rightarrow> nat" where
  "max_align [] = 1"
| "max_align (m # ms) = max (alignof m) (max_align ms)"

fun max_size :: "ctype list \<Rightarrow> nat" where
  "max_size [] = 0"
| "max_size (m # ms) = max (sizeof m) (max_size ms)"

definition struct_type :: "ctype list \<Rightarrow> ctype" where
  "struct_type ms =
     \<lparr>sizeof = round_up (place_members 0 ms) (max_align ms), alignof = max_align ms\<rparr>"

definition union_type :: "ctype list \<Rightarrow> ctype" where
  "union_type ms =
     \<lparr>sizeof = round_up (max_size ms) (max_align ms), alignof = max_align ms\<rparr>"

text \<open>\<^verbatim>\<open>char\<close> and \<^verbatim>\<open>char[n]\<close>.\<close>

definition char_type :: ctype where
  "char_type = \<lparr>sizeof = 1, alignof = 1\<rparr>"

definition char_array :: "nat \<Rightarrow> ctype" where
  "char_array n = \<lparr>sizeof = n, alignof = 1\<rparr>"

section \<open>Alignment deduction\<close>

text \<open>
  The primary template \<^verbatim>\<open>detail::AlignmentCalcImpl<T, false>\<close>, chosen when
  \<^verbatim>\<open>std::is_abstract<T>::value\<close> is false:
  \<^verbatim>\<open>struct AlignmentCalcImpl { char x; T t; };\<close>
\<close>

definition AlignmentCalcImpl :: "ctype \<Rightarrow> ctype" where
  "AlignmentCalcImpl T = struct_type [char_type, T]"

text \<open>
  The members of \<^verbatim>\<open>AlignOf<T>\<close>: the constant \<^verbatim>\<open>Alignment\<close> and the eight
  enumerators that compare it with 2, 4, 8 and 16.
\<close>

record AlignOf_members =
  Alignment :: unsigned
  Alignment_GreaterEqual_2Bytes :: int
  Alignment_GreaterEqual_4Bytes :: int
  Alignment_GreaterEqual_8Bytes :: int
  Alignment_GreaterEqual_16Bytes :: int
  Alignment_LessEqual_2Bytes :: int
  Alignment_LessEqual_4Bytes :: int
  Alignment_LessEqual_8Bytes :: int
  Alignment_LessEqual_16Bytes :: int

text \<open>
  \<^verbatim>\<open>static_cast<unsigned int>(sizeof(detail::AlignmentCalcImpl<T>) - sizeof(T))\<close>:
  the subtraction is done in \<^verbatim>\<open>std::size_t\<close>, where it wraps around, and the
  difference is then truncated to \<^verbatim>\<open>unsigned int\<close>.
\<close>

definition size_difference :: "ctype \<Rightarrow> ctype \<Rightarrow> unsigned" where
  "size_difference helper T =
     ucast ((word_of_nat (sizeof helper) :: size_t) - word_of_nat (sizeof T))"

text \<open>
  \<^verbatim>\<open>AlignOf<T>\<close> for a helper type \<^verbatim>\<open>detail::AlignmentCalcImpl<T>\<close> as the toolchain
  lays it out. The helper is a parameter because the specialisation for abstract
  \<open>T\<close>,
  \<^verbatim>\<open>struct AlignmentCalcImpl<T, true> : AlignmentCalcImplBase, T\<close>,
  is a polymorphic class with two bases, whose layout the aggregate rule above does
  not give.
\<close>

definition AlignOf_with :: "ctype \<Rightarrow> ctype \<Rightarrow> AlignOf_members" where
  "AlignOf_with helper T =
     (let a = size_difference helper T in
      \<lparr>Alignment = a,
       Alignment_GreaterEqual_2Bytes = (if a \<ge> 2 then 1 else 0),
       Alignment_GreaterEqual_4Bytes = (if a \<ge> 4 then 1 else 0),
       Alignment_GreaterEqual_8Bytes = (if a \<ge> 8 then 1 else 0),
       Alignment_GreaterEqual_16Bytes = (if a \<ge> 16 then 1 else 0),
       Alignment_LessEqual_2Bytes = (if a \<le> 2 then 1 else 0),
       Alignment_LessEqual_4Bytes = (if a \<le> 4 then 1 else 0),
       Alignment_LessEqual_8Bytes = (if a \<le> 8 then 1 else 0),
       Alignment_LessEqual_16Bytes = (if a \<le> 16 then 1 else 0)\<rparr>)"

text \<open>\<^verbatim>\<open>AlignOf<T>\<close> for a type \<open>T\<close> that is not abstract.\<close>

definition AlignOf :: "ctype \<Rightarrow> AlignOf_members" where
  "AlignOf T = AlignOf_with (AlignmentCalcImpl T) T"

text \<open>\<^verbatim>\<open>template <typename T> inline unsigned alignOf()\<close>.\<close>

definition alignOf :: "ctype \<Rightarrow> unsigned" where
  "alignOf T = Alignment (AlignOf T)"

section \<open>Aligned storage construction\<close>

text \<open>
  The header selects one of three definitions of \<^verbatim>\<open>AlignedCharArray\<close> with the
  preprocessor. A toolchain is described by the three conditions it tests:
  \<^verbatim>\<open>defined(_MSC_VER)\<close>, \<^verbatim>\<open>__has_feature(cxx_alignas)\<close> and
  \<^verbatim>\<open>defined(__GNUC__) || defined(__IBM_ATTRIBUTES)\<close>. Which operands its
  \<^verbatim>\<open>alignas\<close> accepts is the toolchain's own business (g++ takes the powers of
  two up to \<open>2 ^ 28\<close>, the divisors of \<open>2 ^ 28\<close>), so it is a fourth component,
  \<open>alignas_accepts\<close>, that the header reads only on the branch that uses
  \<^verbatim>\<open>alignas\<close>.
\<close>

record toolchain =
  MSC_VER :: bool
  cxx_alignas :: bool
  GNUC_or_IBM_ATTRIBUTES :: bool
  alignas_accepts :: "nat \<Rightarrow> bool"

text \<open>
  Everything that can go wrong goes wrong while compiling: the \<^verbatim>\<open>#error\<close> of the
  header, a use of the primary template where it is declared but not defined, an
  operand that \<^verbatim>\<open>alignas\<close> does not accept, a template argument list of the
  wrong length, and a member declared with the type of an abstract class.
\<close>

datatype compile_error =
    No_supported_align_directive
  | Incomplete_type
  | Invalid_alignment
  | Wrong_number_of_template_arguments
  | Member_of_abstract_type

text \<open>
  Modelled from the spec: the toolchain honours an alignment directive on a member,
  which raises the alignment of the member to the requested value and leaves its size
  alone.
\<close>

definition aligned_as :: "nat \<Rightarrow> ctype \<Rightarrow> ctype" where
  "aligned_as A m = m\<lparr>alignof := max A (alignof m)\<rparr>"

text \<open>The alignments of a toolchain are powers of two.\<close>

fun is_pow2 :: "nat \<Rightarrow> bool" where
  "is_pow2 n = (if n \<le> 1 then n = 1 else even n \<and> is_pow2 (n div 2))"

declare is_pow2.simps [simp del]

text \<open>\<^verbatim>\<open>short\<close>, \<^verbatim>\<open>int\<close> and \<^verbatim>\<open>double\<close> as MSVC lays them out.\<close>

definition short_type :: ctype where
  "short_type = \<lparr>sizeof = 2, alignof = 2\<rparr>"

definition int_type :: ctype where
  "int_type = \<lparr>sizeof = 4, alignof = 4\<rparr>"

definition double_type :: ctype where
  "double_type = \<lparr>sizeof = 8, alignof = 8\<rparr>"

text \<open>
  \<^verbatim>\<open>AlignedCharArray<Alignment, Size>\<close>. Without \<^verbatim>\<open>_MSC_VER\<close>: with
  \<^verbatim>\<open>cxx_alignas\<close> the primary template is defined,
  \<^verbatim>\<open>struct AlignedCharArray { alignas(Alignment) char buffer[Size]; };\<close>
  and it is for \<^verbatim>\<open>alignas\<close> of the toolchain to accept the operand or not;
  otherwise, with GNU attributes, it is only declared and the macro
  \<^verbatim>\<open>LLVM_ALIGNEDCHARARRAY_TEMPLATE_ALIGNMENT\<close> specialises it for 1, 2, 4, ..., 128;
  otherwise the header stops at \<^verbatim>\<open>#error\<close>. With \<^verbatim>\<open>_MSC_VER\<close> the primary
  template is only declared; the specialisations for 1, 2, 4 and 8 hold an anonymous
  union of the buffer with a \<^verbatim>\<open>char\<close>, \<^verbatim>\<open>short\<close>, \<^verbatim>\<open>int\<close> or \<^verbatim>\<open>double\<close>,
  those for 16, 32, 64 and 128 a buffer with \<^verbatim>\<open>__declspec(align(x))\<close>.
\<close>

definition AlignedCharArray :: "toolchain \<Rightarrow> nat \<Rightarrow> nat \<Rightarrow> compile_error + ctype" where
  "AlignedCharArray tc A S =
     (if \<not> MSC_VER tc then
        if cxx_alignas tc then
          (if alignas_accepts tc A then Inr (struct_type [aligned_as A (char_array S)])
           else Inl Invalid_alignment)
        else if GNUC_or_IBM_ATTRIBUTES tc then
          (if A \<in> {1, 2, 4, 8, 16, 32, 64, 128}
           then Inr (struct_type [aligned_as A (char_array S)])
           else Inl Incomplete_type)
        else Inl No_supported_align_directive
      else
        if A = 1 then Inr (struct_type [union_type [char_type, char_array S]])
        else if A = 2 then Inr (struct_type [union_type [short_type, char_array S]])
        else if A = 4 then Inr (struct_type [union_type [int_type, char_array S]])
        else if A = 8 then Inr (struct_type [union_type [double_type, char_array S]])
        else if A \<in> {16, 32, 64, 128}
          then Inr (struct_type [aligned_as A (char_array S)])
        else Inl Incomplete_type)"

section \<open>Multi-type union sizing\<close>

text \<open>
  \<^verbatim>\<open>detail::AlignerImpl<T1, ..., T10>\<close> is a class with one member of each argument,
  \<^verbatim>\<open>detail::SizerImpl<T1, ..., T10>\<close> a union of the arrays
  \<^verbatim>\<open>char arr1[sizeof(T1)], ..., arr10[sizeof(T10)]\<close>. The arguments are a list; each
  is the type of a member, hence an object type that is not abstract.
\<close>

definition AlignerImpl :: "ctype list \<Rightarrow> ctype" where
  "AlignerImpl Ts = struct_type Ts"

definition SizerImpl :: "ctype list \<Rightarrow> ctype" where
  "SizerImpl Ts = union_type (map (\<lambda>T. char_array (sizeof T)) Ts)"

text \<open>
  The template parameter list \<^verbatim>\<open>T1, T2 = char, ..., T10 = char\<close>: arguments that
  are not supplied are \<^verbatim>\<open>char\<close>.
\<close>

definition template_arguments :: "ctype list \<Rightarrow> ctype list" where
  "template_arguments Ts = Ts @ replicate (10 - length Ts) char_type"

text \<open>
  \<^verbatim>\<open>AlignedCharArrayUnion<T1, ..., T10>\<close> derives from
  \<^verbatim>\<open>AlignedCharArray<AlignOf<AlignerImpl<...>>::Alignment, sizeof(SizerImpl<...>)>\<close>
  and adds no member, so that it is laid out as its base.
\<close>

definition AlignedCharArrayUnion :: "toolchain \<Rightarrow> ctype list \<Rightarrow> compile_error + ctype" where
  "AlignedCharArrayUnion tc Ts =
     (if Ts = [] \<or> 10 < length Ts then Inl Wrong_number_of_template_arguments
      else
        let Ts10 = template_arguments Ts in
        AlignedCharArray tc
          (unat (Alignment (AlignOf (AlignerImpl Ts10))))
          (sizeof (SizerImpl Ts10)))"

text \<open>
  A template argument of \<^verbatim>\<open>AlignedCharArrayUnion\<close> is any complete type, also an
  abstract class (\<^verbatim>\<open>std::is_abstract\<close>). \<^verbatim>\<open>detail::AlignerImpl\<close> declares a
  member of each argument, \<^verbatim>\<open>T1 t1; ... T10 t10;\<close>, which the toolchain rejects
  for an abstract class; for other arguments the instantiation is the one above, on
  their layouts.
\<close>

datatype template_argument = Object_type ctype | Abstract_class ctype

fun layout :: "template_argument \<Rightarrow> ctype" where
  "layout (Object_type T) = T"
| "layout (Abstract_class T) = T"

fun is_abstract :: "template_argument \<Rightarrow> bool" where
  "is_abstract (Object_type T) = False"
| "is_abstract (Abstract_class T) = True"

definition AlignedCharArrayUnion_checked ::
  "toolchain \<Rightarrow> template_argument list \<Rightarrow> compile_error + ctype" where
  "AlignedCharArrayUnion_checked tc Ts =
     (if Ts = [] \<or> 10 < length Ts then Inl Wrong_number_of_template_arguments
      else if list_ex is_abstract Ts then Inl Member_of_abstract_type
      else AlignedCharArrayUnion tc (map layout Ts))"

text \<open>
  From the spec's words, for comparison: the direct two-type computation, the storage
  for the maximum of the two alignments and the maximum of the two sizes.
\<close>

definition direct_two_type_storage ::
  "toolchain \<Rightarrow> ctype \<Rightarrow> ctype \<Rightarrow> compile_error + ctype" where
  "direct_two_type_storage tc T1 T2 =
     AlignedCharArray tc (max (alignof T1) (alignof T2)) (max (sizeof T1) (sizeof T2))"

section \<open>Facts about the layout rule\<close>

lemma round_up_zero: "round_up 0 a = 0"
  by (cases "a = 0") (simp_all add: round_up_def)

lemma round_up_unit: "0 < a \<Longrightarrow> round_up (Suc 0) a = a"
  by (simp add: round_up_def)

lemma round_up_one: "round_up n (Suc 0) = n"
  by (simp add: round_up_def)

lemma round_up_times:
  assumes "0 < a" shows "round_up (k * a) a = k * a"
proof -
  have "(k * a + (a - 1)) div a = k + (a - 1) div a"
    using assms by (intro div_mult_self3) simp
  moreover have "k * a + a - 1 = k * a + (a - 1)" using assms by simp
  ultimately have "(k * a + a - 1) div a = k" using assms by simp
  then show ?thesis by (simp add: round_up_def)
qed

lemma round_up_multiple: "0 < a \<Longrightarrow> a dvd n \<Longrightarrow> round_up n a = n"
  by (auto elim!: dvdE simp: round_up_times mult.commute)

lemma round_up_dvd: "a dvd round_up n a"
  by (simp add: round_up_def)

lemma round_up_ge:
  assumes "0 < a" shows "n \<le> round_up n a"
proof -
  have "n + a - 1 = ((n + a - 1) div a) * a + (n + a - 1) mod a" by simp
  moreover have "(n + a - 1) mod a \<le> a - 1" using assms
    by (metis Suc_pred' less_Suc_eq_le mod_less_divisor One_nat_def)
  ultimately have "n + a - 1 \<le> ((n + a - 1) div a) * a + (a - 1)" by linarith
  then show ?thesis using assms by (simp add: round_up_def)
qed

lemma round_up_within:
  assumes "0 < n" "n \<le> a" shows "round_up n a = a"
proof -
  have "a * 1 \<le> n + a - 1" "n + a - 1 < a * Suc 1" using assms by simp_all
  then have "(n + a - 1) div a = 1" by (rule div_nat_eqI)
  then show ?thesis by (simp add: round_up_def)
qed

lemma max_align_pos: "0 < max_align ms"
  by (induction ms) simp_all

lemma max_align_ge: "m \<in> set ms \<Longrightarrow> alignof m \<le> max_align ms"
  by (induction ms) auto

lemma max_size_ge: "m \<in> set ms \<Longrightarrow> sizeof m \<le> max_size ms"
  by (induction ms) auto

lemma max_align_cases:
  assumes "P 1" "\<forall>m\<in>set ms. P (alignof m)" shows "P (max_align ms)"
  using assms by (induction ms) (auto simp: max_def)

lemma max_align_Max:
  assumes "ms \<noteq> []" "\<forall>m\<in>set ms. 0 < alignof m"
  shows "max_align ms = Max (alignof ` set ms)"
  using assms
proof (induction ms)
  case Nil then show ?case by simp
next
  case (Cons m ms)
  show ?case
  proof (cases "ms = []")
    case True
    with Cons.prems show ?thesis by (simp add: max_def)
  next
    case False
    with Cons show ?thesis by simp
  qed
qed

lemma max_size_Max:
  assumes "ms \<noteq> []"
  shows "max_size ms = Max (sizeof ` set ms)"
  using assms
proof (induction ms)
  case Nil then show ?case by simp
next
  case (Cons m ms)
  show ?case
  proof (cases "ms = []")
    case True
    then show ?thesis by simp
  next
    case False
    with Cons show ?thesis by simp
  qed
qed

lemma struct_type_wf: "alignof (struct_type ms) dvd sizeof (struct_type ms)"
  by (simp add: struct_type_def round_up_dvd)

lemma sizeof_AlignmentCalcImpl:
  assumes "0 < alignof T" "alignof T dvd sizeof T"
  shows "sizeof (AlignmentCalcImpl T) = alignof T + sizeof T"
proof -
  have "max (Suc 0) (alignof T) = alignof T" using assms(1) by simp
  moreover have "round_up (alignof T + sizeof T) (alignof T) = alignof T + sizeof T"
    using assms by (simp add: round_up_multiple)
  ultimately show ?thesis using assms(1)
    by (simp add: AlignmentCalcImpl_def struct_type_def char_type_def round_up_unit round_up_zero)
qed

lemma size_difference_helper:
  assumes "sizeof h = a + sizeof T" "a < 2 ^ 32"
  shows "unat (size_difference h T) = a"
proof -
  have "(word_of_nat (sizeof h) :: size_t) - word_of_nat (sizeof T) = word_of_nat a"
    using assms(1) by simp
  moreover have "unat (ucast (word_of_nat a :: size_t) :: unsigned) = a"
    using assms(2) by (simp add: unsigned_ucast_eq unat_of_nat take_bit_eq_mod)
  ultimately show ?thesis by (simp add: size_difference_def)
qed

lemma Alignment_AlignOf_with: "Alignment (AlignOf_with h T) = size_difference h T"
  by (simp add: AlignOf_with_def Let_def)

lemma unat_Alignment_AlignOf:
  assumes "0 < alignof T" "alignof T dvd sizeof T" "alignof T < 2 ^ 32"
  shows "unat (Alignment (AlignOf T)) = alignof T"
  unfolding AlignOf_def Alignment_AlignOf_with
  using assms by (intro size_difference_helper sizeof_AlignmentCalcImpl)

lemma is_pow2_iff: "is_pow2 n \<longleftrightarrow> (\<exists>k. n = 2 ^ k)"
proof (induction n rule: less_induct)
  case (less n)
  show ?case
  proof (cases "n \<le> 1")
    case True
    have "n = 1 \<longleftrightarrow> (\<exists>k. n = 2 ^ k)"
    proof
      assume "n = 1" then have "n = 2 ^ 0" by simp then show "\<exists>k. n = 2 ^ k" ..
    next
      assume "\<exists>k. n = 2 ^ k"
      then obtain k where k: "n = 2 ^ k" ..
      with True have "(2::nat) ^ k \<le> 2 ^ 0" by simp
      then have "k = 0" using power_increasing_iff [of "2::nat" k 0] by simp
      with k show "n = 1" by simp
    qed
    with True show ?thesis by (simp add: is_pow2.simps [of n])
  next
    case False
    then have IH: "is_pow2 (n div 2) \<longleftrightarrow> (\<exists>k. n div 2 = 2 ^ k)"
      by (intro less.IH) simp
    have "(even n \<and> (\<exists>k. n div 2 = 2 ^ k)) \<longleftrightarrow> (\<exists>k. n = 2 ^ k)"
    proof
      assume "even n \<and> (\<exists>k. n div 2 = 2 ^ k)"
      then obtain k where "even n" "n div 2 = 2 ^ k" by blast
      then have "n = 2 ^ Suc k" by (auto elim!: evenE)
      then show "\<exists>k. n = 2 ^ k" ..
    next
      assume "\<exists>k. n = 2 ^ k"
      then obtain k where k: "n = 2 ^ k" ..
      with False obtain j where "k = Suc j" by (cases k) auto
      with k have "even n" "n div 2 = 2 ^ j" by simp_all
      then show "even n \<and> (\<exists>k. n div 2 = 2 ^ k)" by blast
    qed
    with False IH show ?thesis by (simp add: is_pow2.simps [of n])
  qed
qed

lemma is_pow2_small:
  assumes "is_pow2 A" "A \<le> 128"
  shows "A \<in> {1, 2, 4, 8, 16, 32, 64, 128}"
proof -
  from assms(1) obtain k where k: "A = 2 ^ k" by (auto simp: is_pow2_iff)
  with assms(2) have "(2::nat) ^ k \<le> 2 ^ 7" by simp
  then have "k \<le> 7" by (simp only: power_increasing_iff)
  then have "k \<in> {0, 1, 2, 3, 4, 5, 6, 7}" by auto
  with k show ?thesis by auto
qed

lemma round_up_idem: "round_up (round_up n a) a = round_up n a"
  by (cases "a = 0") (simp_all add: round_up_multiple round_up_dvd, simp add: round_up_def)

lemma round_up_less:
  assumes "0 < a" shows "round_up n a < n + a"
proof -
  have "((n + a - 1) div a) * a \<le> n + a - 1" by simp
  also have "\<dots> < n + a" using assms by simp
  finally show ?thesis by (simp add: round_up_def)
qed

lemma round_up_eq_iff: "0 < a \<Longrightarrow> round_up n a = n \<longleftrightarrow> a dvd n"
  by (metis round_up_dvd round_up_multiple)

lemma round_up_max:
  assumes "0 < S" "0 < a" shows "round_up (max a S) a = round_up S a"
proof (cases "S \<le> a")
  case True
  then have "max a S = a" by simp
  with assms True show ?thesis by (simp add: round_up_within)
next
  case False
  then show ?thesis by (simp add: max_def)
qed

lemma aligned_buffer_layout:
  assumes "0 < A"
  shows "struct_type [aligned_as A (char_array S)] = \<lparr>sizeof = round_up S A, alignof = A\<rparr>"
proof -
  have "max (max A (Suc 0)) (Suc 0) = A" using assms by simp
  then show ?thesis
    by (simp add: struct_type_def aligned_as_def char_array_def round_up_zero)
qed

lemma union_buffer_struct:
  assumes "sizeof m = a" "alignof m = a" "0 < a"
  shows "struct_type [union_type [m, char_array S]] =
    \<lparr>sizeof = round_up (max a S) a, alignof = a\<rparr>"
proof -
  have "max a (max (Suc 0) (Suc 0)) = a" "max a (Suc 0) = a" using assms by simp_all
  then show ?thesis using assms
    by (simp add: struct_type_def union_type_def char_array_def round_up_zero round_up_idem)
qed

lemma union_buffer_layout:
  assumes "sizeof m = a" "alignof m = a" "0 < a" "0 < S"
  shows "struct_type [union_type [m, char_array S]] = \<lparr>sizeof = round_up S a, alignof = a\<rparr>"
  using assms by (simp add: union_buffer_struct round_up_max)

lemma AlignedCharArray_predeclared:
  assumes A: "A \<in> {1, 2, 4, 8, 16, 32, 64, 128}"
    and tc: "MSC_VER tc \<or> cxx_alignas tc \<or> GNUC_or_IBM_ATTRIBUTES tc"
    and acc: "\<not> MSC_VER tc \<and> cxx_alignas tc \<longrightarrow> alignas_accepts tc A"
    and S: "0 < S"
  shows "AlignedCharArray tc A S = Inr \<lparr>sizeof = round_up S A, alignof = A\<rparr>"
proof -
  from A have pos: "0 < A" by auto
  show ?thesis
  proof (cases "MSC_VER tc")
    case False
    with tc A pos acc show ?thesis
      by (auto simp add: AlignedCharArray_def aligned_buffer_layout)
  next
    case True
    have "struct_type [union_type [char_type, char_array S]] = \<lparr>sizeof = round_up S 1, alignof = 1\<rparr>"
      "struct_type [union_type [short_type, char_array S]] = \<lparr>sizeof = round_up S 2, alignof = 2\<rparr>"
      "struct_type [union_type [int_type, char_array S]] = \<lparr>sizeof = round_up S 4, alignof = 4\<rparr>"
      "struct_type [union_type [double_type, char_array S]] = \<lparr>sizeof = round_up S 8, alignof = 8\<rparr>"
      using S by (simp_all add: union_buffer_layout char_type_def short_type_def int_type_def double_type_def)
    with True A pos show ?thesis
      by (auto simp add: AlignedCharArray_def aligned_buffer_layout)
  qed
qed

lemma max_align_char_arrays: "max_align (map (\<lambda>T. char_array (sizeof T)) Ts) = 1"
  by (induction Ts) (simp_all add: char_array_def)

lemma max_size_char_arrays: "max_size (map (\<lambda>T. char_array (sizeof T)) Ts) = max_size Ts"
  by (induction Ts) (simp_all add: char_array_def)

lemma SizerImpl_layout: "SizerImpl Ts = \<lparr>sizeof = max_size Ts, alignof = 1\<rparr>"
  by (simp add: SizerImpl_def union_type_def max_align_char_arrays max_size_char_arrays round_up_one)

lemma AlignerImpl_alignof: "alignof (AlignerImpl Ts) = max_align Ts"
  by (simp add: AlignerImpl_def struct_type_def)

lemma Alignment_AlignerImpl:
  assumes "max_align Ts < 2 ^ 32"
  shows "unat (Alignment (AlignOf (AlignerImpl Ts))) = max_align Ts"
proof -
  have "unat (Alignment (AlignOf (AlignerImpl Ts))) = alignof (AlignerImpl Ts)"
    using assms
    by (intro unat_Alignment_AlignOf) (simp_all add: AlignerImpl_def struct_type_wf,
        simp_all add: struct_type_def max_align_pos)
  then show ?thesis by (simp add: AlignerImpl_alignof)
qed

lemma template_arguments_keep: "set Ts \<subseteq> set (template_arguments Ts)"
  by (auto simp: template_arguments_def)

lemma max_align_template_arguments: "max_align (template_arguments Ts) = max_align Ts"
proof -
  have "max_align (Ts @ replicate n char_type) = max_align Ts" for n
  proof (induction Ts)
    case Nil
    show ?case by (induction n) (simp_all add: char_type_def)
  next
    case (Cons T Ts)
    then show ?case by simp
  qed
  then show ?thesis by (simp add: template_arguments_def)
qed

lemma AlignedCharArray_bounds:
  assumes tc: "MSC_VER tc \<or> cxx_alignas tc \<or> GNUC_or_IBM_ATTRIBUTES tc"
    and pos: "0 < A"
    and pre: "MSC_VER tc \<or> \<not> cxx_alignas tc \<longrightarrow> A \<in> {1, 2, 4, 8, 16, 32, 64, 128}"
    and acc: "\<not> MSC_VER tc \<and> cxx_alignas tc \<longrightarrow> alignas_accepts tc A"
  shows "\<exists>U. AlignedCharArray tc A S = Inr U \<and> alignof U = A \<and> S \<le> sizeof U"
proof (cases "MSC_VER tc")
  case False
  with tc pos pre acc show ?thesis
    by (auto simp add: AlignedCharArray_def aligned_buffer_layout round_up_ge)
next
  case True
  have "struct_type [union_type [char_type, char_array S]]
      = \<lparr>sizeof = round_up (max 1 S) 1, alignof = 1\<rparr>"
    "struct_type [union_type [short_type, char_array S]]
      = \<lparr>sizeof = round_up (max 2 S) 2, alignof = 2\<rparr>"
    "struct_type [union_type [int_type, char_array S]]
      = \<lparr>sizeof = round_up (max 4 S) 4, alignof = 4\<rparr>"
    "struct_type [union_type [double_type, char_array S]]
      = \<lparr>sizeof = round_up (max 8 S) 8, alignof = 8\<rparr>"
    by (simp_all add: union_buffer_struct char_type_def short_type_def int_type_def
        double_type_def)
  moreover have "S \<le> round_up (max a S) a" if "0 < a" for a
  proof -
    have "S \<le> max a S" by simp
    also have "\<dots> \<le> round_up (max a S) a" using that by (rule round_up_ge)
    finally show ?thesis .
  qed
  ultimately show ?thesis using True pre pos
    by (auto simp add: AlignedCharArray_def aligned_buffer_layout round_up_ge)
qed

lemma AlignedCharArray_rejected:
  assumes "MSC_VER tc \<or> (\<not> cxx_alignas tc \<and> GNUC_or_IBM_ATTRIBUTES tc)" and "128 < A"
  shows "AlignedCharArray tc A S = Inl Incomplete_type"
  using assms by (auto simp add: AlignedCharArray_def)

lemma AlignedCharArray_invalid:
  assumes "\<not> MSC_VER tc" and "cxx_alignas tc" and "\<not> alignas_accepts tc A"
  shows "AlignedCharArray tc A S = Inl Invalid_alignment"
  using assms by (simp add: AlignedCharArray_def)

lemma AlignedCharArrayUnion_unfold:
  assumes "Ts \<noteq> []" and "length Ts \<le> 10" and "max_align Ts < 2 ^ 32"
  shows "AlignedCharArrayUnion tc Ts =
    AlignedCharArray tc (max_align Ts) (max_size (template_arguments Ts))"
proof -
  have "unat (Alignment (AlignOf (AlignerImpl (template_arguments Ts)))) = max_align Ts"
    using assms(3) Alignment_AlignerImpl [of "template_arguments Ts"]
    by (simp add: max_align_template_arguments)
  then show ?thesis
    using assms(1,2) by (simp add: AlignedCharArrayUnion_def Let_def SizerImpl_layout)
qed

lemma max_align_pow2:
  assumes "\<forall>T\<in>set Ts. is_pow2 (alignof T)"
  shows "is_pow2 (max_align Ts)"
proof (rule max_align_cases [where P = is_pow2])
  show "is_pow2 1" by (subst is_pow2.simps) simp
  show "\<forall>m\<in>set Ts. is_pow2 (alignof m)" using assms .
qed

lemma max_align_bound:
  assumes "\<forall>T\<in>set Ts. alignof T < 2 ^ 32"
  shows "max_align Ts < 2 ^ 32"
proof (rule max_align_cases [where P = "\<lambda>a. a < 2 ^ 32"])
  show "(1::nat) < 2 ^ 32" by simp
  show "\<forall>m\<in>set Ts. alignof m < 2 ^ 32" using assms .
qed

lemma max_align_small:
  assumes "\<forall>T\<in>set Ts. alignof T \<le> 128"
  shows "max_align Ts \<le> 128"
proof (rule max_align_cases [where P = "\<lambda>a. a \<le> 128"])
  show "(1::nat) \<le> 128" by simp
  show "\<forall>m\<in>set Ts. alignof m \<le> 128" using assms .
qed

section \<open>Alignment deduction: the claims\<close>

text \<open>
  C1. For a type \<open>T\<close> that is not abstract, whose alignment is positive, divides its
  size (as for every complete object type) and fits \<^verbatim>\<open>unsigned int\<close>, the member
  \<open>t\<close> of the helper aggregate lies at offset \<open>alignof T\<close>, the helper is
  \<open>alignof T\<close> bytes larger than \<open>T\<close>, and \<^verbatim>\<open>AlignOf<T>::Alignment\<close>, like
  \<^verbatim>\<open>alignOf<T>()\<close>, is the alignment of \<open>T\<close>.
\<close>

theorem AlignOf_Alignment_is_alignof:
  assumes "0 < alignof T" and "alignof T dvd sizeof T" and "alignof T < 2 ^ 32"
  shows "sizeof (AlignmentCalcImpl T) = alignof T + sizeof T
    \<and> unat (Alignment (AlignOf T)) = alignof T
    \<and> unat (alignOf T) = alignof T"
  using assms by (simp add: sizeof_AlignmentCalcImpl unat_Alignment_AlignOf alignOf_def)

text \<open>The witness: a type of 12 bytes with alignment 4.\<close>

theorem AlignOf_Alignment_is_alignof_witness:
  "sizeof (AlignmentCalcImpl \<lparr>sizeof = 12, alignof = 4\<rparr>) = 16
    \<and> unat (Alignment (AlignOf \<lparr>sizeof = 12, alignof = 4\<rparr>)) = 4
    \<and> unat (alignOf \<lparr>sizeof = 12, alignof = 4\<rparr>) = 4"
  using AlignOf_Alignment_is_alignof [of "\<lparr>sizeof = 12, alignof = 4\<rparr>"] by simp

text \<open>
  C2. The claim is what the header's comments promise of the specialisation for
  abstract classes, and the code breaks it for an abstract class with an over-aligned
  virtual base. Take \<^verbatim>\<open>struct alignas(64) V64 { char c[64]; };\<close> and
  \<^verbatim>\<open>struct AbsV : virtual V64 { virtual void f() = 0; };\<close> under the Itanium C++
  ABI (g++, clang) with 8-byte pointers. \<^verbatim>\<open>AbsV\<close> is its vtable pointer at offset
  0 and \<^verbatim>\<open>V64\<close> at offset 64: 128 bytes, alignment 64. The helper
  \<^verbatim>\<open>AlignmentCalcImpl<AbsV>\<close> is the vtable pointer of
  \<^verbatim>\<open>AlignmentCalcImplBase\<close> at offset 0, the non-virtual part of \<^verbatim>\<open>AbsV\<close> at
  offset 8 and the one \<^verbatim>\<open>V64\<close> at offset 64: 128 bytes again. So
  \<^verbatim>\<open>AlignOf<AbsV>::Alignment\<close> is 0, while a concrete subtype that adds no state
  has the layout of \<^verbatim>\<open>AbsV\<close> and is measured, on the path for types that are not
  abstract, at 64.
\<close>

theorem AlignOf_abstract_virtual_base:
  "Alignment (AlignOf_with \<lparr>sizeof = 128, alignof = 64\<rparr> \<lparr>sizeof = 128, alignof = 64\<rparr>) = 0
    \<and> unat (Alignment (AlignOf \<lparr>sizeof = 128, alignof = 64\<rparr>)) = 64"
proof -
  have "Alignment (AlignOf_with \<lparr>sizeof = 128, alignof = 64\<rparr> \<lparr>sizeof = 128, alignof = 64\<rparr>) = 0"
    by (simp add: AlignOf_with_def size_difference_def Let_def)
  moreover have "unat (Alignment (AlignOf \<lparr>sizeof = 128, alignof = 64\<rparr>)) = 64"
    using unat_Alignment_AlignOf [of "\<lparr>sizeof = 128, alignof = 64\<rparr>"] by simp
  ultimately show ?thesis by simp
qed

text \<open>
  C8. For a type that is not abstract the claim holds, by the two lemmas behind C1:
  the helper is \<open>alignof T\<close> bytes larger than \<open>T\<close>, and the constant is
  \<open>alignof T\<close>, a power of two when the toolchain's alignments are.
\<close>

lemma AlignOf_power_of_two:
  assumes "is_pow2 (alignof T)" and "alignof T dvd sizeof T" and "alignof T < 2 ^ 32"
  shows "sizeof T < sizeof (AlignmentCalcImpl T)
    \<and> is_pow2 (unat (Alignment (AlignOf T)))
    \<and> 1 \<le> unat (Alignment (AlignOf T))"
proof -
  from assms(1) have pos: "0 < alignof T" by (auto simp: is_pow2_iff)
  with assms show ?thesis
    by (simp add: sizeof_AlignmentCalcImpl unat_Alignment_AlignOf)
qed

text \<open>
  C8 fails for the abstract class \<^verbatim>\<open>AbsV\<close> of C2, by the same defect: the helper
  has the 128 bytes of \<^verbatim>\<open>AbsV\<close>, it is not strictly larger, and the constant is
  0, which is neither a power of two nor at least 1.
\<close>

theorem AlignOf_abstract_not_positive:
  "\<not> sizeof \<lparr>sizeof = 128, alignof = 64\<rparr> < sizeof \<lparr>sizeof = 128, alignof = (64::nat)\<rparr>
    \<and> unat (Alignment
        (AlignOf_with \<lparr>sizeof = 128, alignof = 64\<rparr> \<lparr>sizeof = 128, alignof = 64\<rparr>)) = 0
    \<and> \<not> is_pow2 (unat (Alignment
        (AlignOf_with \<lparr>sizeof = 128, alignof = 64\<rparr> \<lparr>sizeof = 128, alignof = 64\<rparr>)))"
proof -
  have "Alignment (AlignOf_with \<lparr>sizeof = 128, alignof = 64\<rparr> \<lparr>sizeof = 128, alignof = 64\<rparr>) = 0"
    by (simp add: AlignOf_with_def size_difference_def Let_def)
  moreover have "\<not> is_pow2 0" by (subst is_pow2.simps) simp
  ultimately show ?thesis by simp
qed

text \<open>
  C9. The eight enumerators of \<^verbatim>\<open>AlignOf<T>\<close> are the comparisons of
  \<^verbatim>\<open>Alignment\<close> with 2, 4, 8 and 16: each is 1 exactly when its comparison
  holds, and 0 otherwise. This holds for any helper type, hence for abstract \<open>T\<close> too.
\<close>

theorem AlignOf_thresholds:
  "(Alignment_GreaterEqual_2Bytes (AlignOf_with h T) = 1) = (Alignment (AlignOf_with h T) \<ge> 2)
 \<and> (Alignment_GreaterEqual_4Bytes (AlignOf_with h T) = 1) = (Alignment (AlignOf_with h T) \<ge> 4)
 \<and> (Alignment_GreaterEqual_8Bytes (AlignOf_with h T) = 1) = (Alignment (AlignOf_with h T) \<ge> 8)
 \<and> (Alignment_GreaterEqual_16Bytes (AlignOf_with h T) = 1) = (Alignment (AlignOf_with h T) \<ge> 16)
 \<and> (Alignment_LessEqual_2Bytes (AlignOf_with h T) = 1) = (Alignment (AlignOf_with h T) \<le> 2)
 \<and> (Alignment_LessEqual_4Bytes (AlignOf_with h T) = 1) = (Alignment (AlignOf_with h T) \<le> 4)
 \<and> (Alignment_LessEqual_8Bytes (AlignOf_with h T) = 1) = (Alignment (AlignOf_with h T) \<le> 8)
 \<and> (Alignment_LessEqual_16Bytes (AlignOf_with h T) = 1) = (Alignment (AlignOf_with h T) \<le> 16)
 \<and> Alignment_GreaterEqual_2Bytes (AlignOf_with h T) \<in> {0, 1}
 \<and> Alignment_GreaterEqual_4Bytes (AlignOf_with h T) \<in> {0, 1}
 \<and> Alignment_GreaterEqual_8Bytes (AlignOf_with h T) \<in> {0, 1}
 \<and> Alignment_GreaterEqual_16Bytes (AlignOf_with h T) \<in> {0, 1}
 \<and> Alignment_LessEqual_2Bytes (AlignOf_with h T) \<in> {0, 1}
 \<and> Alignment_LessEqual_4Bytes (AlignOf_with h T) \<in> {0, 1}
 \<and> Alignment_LessEqual_8Bytes (AlignOf_with h T) \<in> {0, 1}
 \<and> Alignment_LessEqual_16Bytes (AlignOf_with h T) \<in> {0, 1}"
  by (simp add: AlignOf_with_def Let_def)

text \<open>
  C10. The enumerators of \<^verbatim>\<open>AlignOf<T>\<close> are consistent with each other: the
  greater-equal flags are monotone downwards, the less-equal flags monotone upwards,
  for each threshold at least one of its two flags is 1, and both are 1 exactly when
  \<^verbatim>\<open>Alignment\<close> is the threshold.
\<close>

theorem AlignOf_thresholds_consistent:
  fixes h T
  defines "F \<equiv> AlignOf_with h T"
  shows "(Alignment_GreaterEqual_16Bytes F = 1 \<longrightarrow> Alignment_GreaterEqual_8Bytes F = 1)
 \<and> (Alignment_GreaterEqual_8Bytes F = 1 \<longrightarrow> Alignment_GreaterEqual_4Bytes F = 1)
 \<and> (Alignment_GreaterEqual_4Bytes F = 1 \<longrightarrow> Alignment_GreaterEqual_2Bytes F = 1)
 \<and> (Alignment_LessEqual_2Bytes F = 1 \<longrightarrow> Alignment_LessEqual_4Bytes F = 1)
 \<and> (Alignment_LessEqual_4Bytes F = 1 \<longrightarrow> Alignment_LessEqual_8Bytes F = 1)
 \<and> (Alignment_LessEqual_8Bytes F = 1 \<longrightarrow> Alignment_LessEqual_16Bytes F = 1)
 \<and> (Alignment_GreaterEqual_2Bytes F = 1 \<or> Alignment_LessEqual_2Bytes F = 1)
 \<and> (Alignment_GreaterEqual_4Bytes F = 1 \<or> Alignment_LessEqual_4Bytes F = 1)
 \<and> (Alignment_GreaterEqual_8Bytes F = 1 \<or> Alignment_LessEqual_8Bytes F = 1)
 \<and> (Alignment_GreaterEqual_16Bytes F = 1 \<or> Alignment_LessEqual_16Bytes F = 1)
 \<and> ((Alignment_GreaterEqual_2Bytes F = 1 \<and> Alignment_LessEqual_2Bytes F = 1) = (Alignment F = 2))
 \<and> ((Alignment_GreaterEqual_4Bytes F = 1 \<and> Alignment_LessEqual_4Bytes F = 1) = (Alignment F = 4))
 \<and> ((Alignment_GreaterEqual_8Bytes F = 1 \<and> Alignment_LessEqual_8Bytes F = 1) = (Alignment F = 8))
 \<and> ((Alignment_GreaterEqual_16Bytes F = 1 \<and> Alignment_LessEqual_16Bytes F = 1) = (Alignment F = 16))"
  unfolding F_def
  by (auto simp add: AlignOf_with_def Let_def word_le_nat_alt word_unat_eq_iff)

text \<open>The witness: a helper of 16 bytes for a type of 8 bytes, so that the alignment is 8.\<close>

theorem AlignOf_thresholds_consistent_witness:
  "Alignment (AlignOf_with \<lparr>sizeof = 16, alignof = 8\<rparr> \<lparr>sizeof = 8, alignof = 8\<rparr>) = 8
 \<and> Alignment_GreaterEqual_8Bytes (AlignOf_with \<lparr>sizeof = 16, alignof = 8\<rparr> \<lparr>sizeof = 8, alignof = 8\<rparr>) = 1
 \<and> Alignment_LessEqual_8Bytes (AlignOf_with \<lparr>sizeof = 16, alignof = 8\<rparr> \<lparr>sizeof = 8, alignof = 8\<rparr>) = 1
 \<and> Alignment_GreaterEqual_4Bytes (AlignOf_with \<lparr>sizeof = 16, alignof = 8\<rparr> \<lparr>sizeof = 8, alignof = 8\<rparr>) = 1
 \<and> Alignment_GreaterEqual_2Bytes (AlignOf_with \<lparr>sizeof = 16, alignof = 8\<rparr> \<lparr>sizeof = 8, alignof = 8\<rparr>) = 1
 \<and> Alignment_LessEqual_16Bytes (AlignOf_with \<lparr>sizeof = 16, alignof = 8\<rparr> \<lparr>sizeof = 8, alignof = 8\<rparr>) = 1"
proof -
  let ?F = "AlignOf_with \<lparr>sizeof = 16, alignof = 8\<rparr> \<lparr>sizeof = 8, alignof = 8\<rparr>"
  have a: "Alignment ?F = 8"
    by (simp add: AlignOf_with_def size_difference_def Let_def)
  note c = AlignOf_thresholds_consistent [of "\<lparr>sizeof = 16, alignof = 8\<rparr>" "\<lparr>sizeof = 8, alignof = 8\<rparr>"]
  from a c have both: "Alignment_GreaterEqual_8Bytes ?F = 1" "Alignment_LessEqual_8Bytes ?F = 1"
    by simp_all
  with c have "Alignment_GreaterEqual_4Bytes ?F = 1" "Alignment_LessEqual_16Bytes ?F = 1"
    by blast+
  moreover with c have "Alignment_GreaterEqual_2Bytes ?F = 1" by blast
  ultimately show ?thesis using a both by simp
qed

section \<open>Aligned storage construction: the claims\<close>

text \<open>
  C5, as stated, fails: the claim gives \<^verbatim>\<open>AlignedCharArray<A, S>\<close> exactly \<open>S\<close>
  bytes also where \<open>S\<close> is not a multiple of \<open>A\<close>. On each of the three branches
  \<^verbatim>\<open>AlignedCharArray<8, 3>\<close> has 8 bytes, not 3: the size of a type is a multiple
  of its alignment.
\<close>

theorem AlignedCharArray_size_counterexample:
  "AlignedCharArray \<lparr>MSC_VER = False, cxx_alignas = True, GNUC_or_IBM_ATTRIBUTES = True, alignas_accepts = (\<lambda>A. A dvd 2 ^ 28)\<rparr> 8 3
     = Inr \<lparr>sizeof = 8, alignof = 8\<rparr>
   \<and> AlignedCharArray \<lparr>MSC_VER = False, cxx_alignas = False, GNUC_or_IBM_ATTRIBUTES = True, alignas_accepts = (\<lambda>A. False)\<rparr> 8 3
     = Inr \<lparr>sizeof = 8, alignof = 8\<rparr>
   \<and> AlignedCharArray \<lparr>MSC_VER = True, cxx_alignas = False, GNUC_or_IBM_ATTRIBUTES = False, alignas_accepts = (\<lambda>A. False)\<rparr> 8 3
     = Inr \<lparr>sizeof = 8, alignof = 8\<rparr>
   \<and> sizeof \<lparr>sizeof = 8, alignof = 8\<rparr> \<noteq> 3"
  by (simp add: AlignedCharArray_def struct_type_def union_type_def aligned_as_def
      char_array_def double_type_def round_up_def is_pow2.simps)

text \<open>
  C5, amended. For every alignment \<open>A\<close> among 1, 2, 4, ..., 128 and every size
  \<open>S \<ge> 1\<close>, on every toolchain the header supports (where the header uses
  \<^verbatim>\<open>alignas\<close>, one whose \<^verbatim>\<open>alignas\<close> accepts \<open>A\<close>),
  \<^verbatim>\<open>AlignedCharArray<A, S>\<close> is defined, its alignment is \<open>A\<close>, and its size is
  \<open>S\<close> rounded up to the next multiple of \<open>A\<close>: at least \<open>S\<close>, less than
  \<open>S + A\<close>, a multiple of \<open>A\<close>, and exactly \<open>S\<close> if and only if \<open>A\<close> divides
  \<open>S\<close>.
\<close>

theorem AlignedCharArray_size_and_alignment:
  assumes "A \<in> {1, 2, 4, 8, 16, 32, 64, 128}" and "1 \<le> S"
    and "MSC_VER tc \<or> cxx_alignas tc \<or> GNUC_or_IBM_ATTRIBUTES tc"
    and "\<not> MSC_VER tc \<and> cxx_alignas tc \<longrightarrow> alignas_accepts tc A"
  shows "AlignedCharArray tc A S = Inr \<lparr>sizeof = round_up S A, alignof = A\<rparr>
    \<and> S \<le> round_up S A \<and> round_up S A < S + A \<and> A dvd round_up S A
    \<and> (round_up S A = S) = (A dvd S)"
proof -
  from assms(1) have "0 < A" by auto
  moreover have "AlignedCharArray tc A S = Inr \<lparr>sizeof = round_up S A, alignof = A\<rparr>"
    using assms by (intro AlignedCharArray_predeclared) simp_all
  ultimately show ?thesis
    by (simp add: round_up_ge round_up_less round_up_dvd round_up_eq_iff)
qed

text \<open>
  The witness: with MSVC, alignment 4 and 6 bytes give a type of 8 bytes; with GNU
  attributes, alignment 16 and 32 bytes give a type of 32 bytes; with
  \<^verbatim>\<open>alignas\<close>, alignment 64 and 100 bytes give a type of 128 bytes.
\<close>

theorem AlignedCharArray_size_and_alignment_witness:
  "AlignedCharArray \<lparr>MSC_VER = True, cxx_alignas = False, GNUC_or_IBM_ATTRIBUTES = False, alignas_accepts = (\<lambda>A. False)\<rparr> 4 6
     = Inr \<lparr>sizeof = 8, alignof = 4\<rparr>
   \<and> AlignedCharArray \<lparr>MSC_VER = False, cxx_alignas = False, GNUC_or_IBM_ATTRIBUTES = True, alignas_accepts = (\<lambda>A. False)\<rparr> 16 32
     = Inr \<lparr>sizeof = 32, alignof = 16\<rparr>
   \<and> AlignedCharArray \<lparr>MSC_VER = False, cxx_alignas = True, GNUC_or_IBM_ATTRIBUTES = True, alignas_accepts = (\<lambda>A. A dvd 2 ^ 28)\<rparr> 64 100
     = Inr \<lparr>sizeof = 128, alignof = 64\<rparr>"
  using AlignedCharArray_size_and_alignment
    [of 4 6 "\<lparr>MSC_VER = True, cxx_alignas = False, GNUC_or_IBM_ATTRIBUTES = False, alignas_accepts = (\<lambda>A. False)\<rparr>"]
    AlignedCharArray_size_and_alignment
    [of 16 32 "\<lparr>MSC_VER = False, cxx_alignas = False, GNUC_or_IBM_ATTRIBUTES = True, alignas_accepts = (\<lambda>A. False)\<rparr>"]
    AlignedCharArray_size_and_alignment
    [of 64 100 "\<lparr>MSC_VER = False, cxx_alignas = True, GNUC_or_IBM_ATTRIBUTES = True, alignas_accepts = (\<lambda>A. A dvd 2 ^ 28)\<rparr>"]
  by (simp add: round_up_def is_pow2.simps)

text \<open>
  C6, as stated, fails: the claim has \<^verbatim>\<open>AlignedCharArray<A, S>\<close> defined for the
  eight pre-declared alignments only. Where \<^verbatim>\<open>__has_feature(cxx_alignas)\<close> holds the
  primary template is defined, and on a toolchain whose \<^verbatim>\<open>alignas\<close> accepts 256
  \<^verbatim>\<open>AlignedCharArray<256, 1>\<close> is a type.
\<close>

theorem AlignedCharArray_other_alignment_counterexample:
  "AlignedCharArray \<lparr>MSC_VER = False, cxx_alignas = True, GNUC_or_IBM_ATTRIBUTES = True, alignas_accepts = (\<lambda>A. A dvd 2 ^ 28)\<rparr> 256 1
     = Inr \<lparr>sizeof = 256, alignof = 256\<rparr>
   \<and> (256::nat) \<notin> {1, 2, 4, 8, 16, 32, 64, 128}"
  by (simp add: AlignedCharArray_def struct_type_def aligned_as_def
      char_array_def round_up_def is_pow2.simps)

text \<open>
  C6, amended. With \<^verbatim>\<open>_MSC_VER\<close>, and with GNU attributes where
  \<^verbatim>\<open>__has_feature(cxx_alignas)\<close> does not hold, \<^verbatim>\<open>AlignedCharArray<A, S>\<close> is
  defined exactly for \<open>A\<close> among 1, 2, 4, ..., 128, and any other \<open>A\<close> is rejected
  while compiling, as a use of the primary template, which is declared and not
  defined. Without \<^verbatim>\<open>_MSC_VER\<close> and with \<^verbatim>\<open>__has_feature(cxx_alignas)\<close> the
  primary template is defined, so that the header rejects no \<open>A\<close>: the type is
  defined if \<^verbatim>\<open>alignas\<close> of the toolchain accepts \<open>A\<close>, and \<^verbatim>\<open>alignas\<close>
  rejects it while compiling if not. A toolchain with none of the three stops at the
  \<^verbatim>\<open>#error\<close>. No outcome is a run-time error.
\<close>

theorem AlignedCharArray_defined_iff:
  "(MSC_VER tc \<or> (\<not> cxx_alignas tc \<and> GNUC_or_IBM_ATTRIBUTES tc) \<longrightarrow>
      (if A \<in> {1, 2, 4, 8, 16, 32, 64, 128}
       then \<exists>U. AlignedCharArray tc A S = Inr U
       else AlignedCharArray tc A S = Inl Incomplete_type))
   \<and> (\<not> MSC_VER tc \<and> cxx_alignas tc \<longrightarrow>
      AlignedCharArray tc A S \<noteq> Inl Incomplete_type
      \<and> (if alignas_accepts tc A
         then \<exists>U. AlignedCharArray tc A S = Inr U
         else AlignedCharArray tc A S = Inl Invalid_alignment))
   \<and> (\<not> MSC_VER tc \<and> \<not> cxx_alignas tc \<and> \<not> GNUC_or_IBM_ATTRIBUTES tc \<longrightarrow>
      AlignedCharArray tc A S = Inl No_supported_align_directive)"
  by (auto simp add: AlignedCharArray_def)

text \<open>
  The witness: alignment 256 with GNU attributes and alignment 3 with MSVC are
  rejected as uses of the undefined primary template, alignment 64 with GNU
  attributes is accepted; with \<^verbatim>\<open>alignas\<close>, alignment 256 is accepted and
  alignment 3 is rejected by \<^verbatim>\<open>alignas\<close>.
\<close>

theorem AlignedCharArray_defined_iff_witness:
  "AlignedCharArray \<lparr>MSC_VER = False, cxx_alignas = False, GNUC_or_IBM_ATTRIBUTES = True, alignas_accepts = (\<lambda>A. False)\<rparr> 256 1
     = Inl Incomplete_type
   \<and> AlignedCharArray \<lparr>MSC_VER = True, cxx_alignas = False, GNUC_or_IBM_ATTRIBUTES = False, alignas_accepts = (\<lambda>A. False)\<rparr> 3 7
     = Inl Incomplete_type
   \<and> (\<exists>U. AlignedCharArray \<lparr>MSC_VER = False, cxx_alignas = False, GNUC_or_IBM_ATTRIBUTES = True, alignas_accepts = (\<lambda>A. False)\<rparr> 64 1
     = Inr U)
   \<and> (\<exists>U. AlignedCharArray \<lparr>MSC_VER = False, cxx_alignas = True, GNUC_or_IBM_ATTRIBUTES = True, alignas_accepts = (\<lambda>A. A dvd 2 ^ 28)\<rparr> 256 1
     = Inr U)
   \<and> AlignedCharArray \<lparr>MSC_VER = False, cxx_alignas = True, GNUC_or_IBM_ATTRIBUTES = True, alignas_accepts = (\<lambda>A. A dvd 2 ^ 28)\<rparr> 3 1
     = Inl Invalid_alignment"
  using AlignedCharArray_defined_iff
    [of "\<lparr>MSC_VER = False, cxx_alignas = False, GNUC_or_IBM_ATTRIBUTES = True, alignas_accepts = (\<lambda>A. False)\<rparr>" 256 1]
    AlignedCharArray_defined_iff
    [of "\<lparr>MSC_VER = True, cxx_alignas = False, GNUC_or_IBM_ATTRIBUTES = False, alignas_accepts = (\<lambda>A. False)\<rparr>" 3 7]
    AlignedCharArray_defined_iff
    [of "\<lparr>MSC_VER = False, cxx_alignas = False, GNUC_or_IBM_ATTRIBUTES = True, alignas_accepts = (\<lambda>A. False)\<rparr>" 64 1]
    AlignedCharArray_defined_iff
    [of "\<lparr>MSC_VER = False, cxx_alignas = True, GNUC_or_IBM_ATTRIBUTES = True, alignas_accepts = (\<lambda>A. A dvd 2 ^ 28)\<rparr>" 256 1]
    AlignedCharArray_defined_iff
    [of "\<lparr>MSC_VER = False, cxx_alignas = True, GNUC_or_IBM_ATTRIBUTES = True, alignas_accepts = (\<lambda>A. A dvd 2 ^ 28)\<rparr>" 3 1]
  by (simp add: is_pow2.simps)

section \<open>Multi-type union sizing: the claims\<close>

text \<open>
  C3, as stated, fails: the claim holds for every list of complete candidate types.
  With GNU attributes and no \<^verbatim>\<open>alignas\<close>, a candidate aligned to 256 bytes asks
  for \<^verbatim>\<open>AlignedCharArray<256, 256>\<close>, which is not defined there, so that
  \<^verbatim>\<open>AlignedCharArrayUnion\<close> has an incomplete base and no storage exists. And on
  any toolchain an abstract class, a complete type, cannot be a candidate:
  \<^verbatim>\<open>detail::AlignerImpl\<close> declares a member of it.
\<close>

theorem AlignedCharArrayUnion_overaligned_counterexample:
  "AlignedCharArrayUnion_checked
      \<lparr>MSC_VER = False, cxx_alignas = False, GNUC_or_IBM_ATTRIBUTES = True, alignas_accepts = (\<lambda>A. False)\<rparr>
      [Object_type \<lparr>sizeof = 4, alignof = 4\<rparr>, Object_type \<lparr>sizeof = 256, alignof = 256\<rparr>]
     = Inl Incomplete_type
   \<and> AlignedCharArrayUnion_checked
      \<lparr>MSC_VER = False, cxx_alignas = False, GNUC_or_IBM_ATTRIBUTES = True, alignas_accepts = (\<lambda>A. False)\<rparr>
      [Abstract_class \<lparr>sizeof = 8, alignof = 8\<rparr>, Object_type \<lparr>sizeof = 4, alignof = 4\<rparr>]
     = Inl Member_of_abstract_type"
proof -
  let ?Ts = "[\<lparr>sizeof = 4, alignof = 4\<rparr>, \<lparr>sizeof = 256, alignof = 256\<rparr>]"
  have "AlignedCharArrayUnion
      \<lparr>MSC_VER = False, cxx_alignas = False, GNUC_or_IBM_ATTRIBUTES = True, alignas_accepts = (\<lambda>A. False)\<rparr>
      ?Ts = Inl Incomplete_type"
    using AlignedCharArrayUnion_unfold [of ?Ts]
    by (simp add: AlignedCharArray_rejected)
  then show ?thesis by (simp add: AlignedCharArrayUnion_checked_def)
qed

text \<open>
  C3, amended. On a toolchain the header supports, for one to ten candidates, each a
  complete type whose alignment is a power of two below \<open>2 ^ 32\<close>. If no candidate
  is an abstract class and \<^verbatim>\<open>AlignedCharArray\<close> is defined for the largest
  candidate alignment (with MSVC, and with GNU attributes without \<^verbatim>\<open>alignas\<close>:
  no candidate is aligned to more than 128 bytes; where the header uses
  \<^verbatim>\<open>alignas\<close>: \<^verbatim>\<open>alignas\<close> of the toolchain accepts it), then
  \<^verbatim>\<open>AlignedCharArrayUnion<T1, ..., T10>\<close> is a type whose alignment and size are at
  least those of every candidate. Otherwise the instantiation is rejected while
  compiling: for an abstract candidate, for a candidate aligned to more than 128
  bytes where only the pre-declared alignments exist, and for a largest alignment
  that \<^verbatim>\<open>alignas\<close> does not accept.
\<close>

theorem AlignedCharArrayUnion_hosts_every_candidate:
  assumes tc: "MSC_VER tc \<or> cxx_alignas tc \<or> GNUC_or_IBM_ATTRIBUTES tc"
    and args: "Ts \<noteq> []" "length Ts \<le> 10"
    and pow: "\<forall>T\<in>set Ts. is_pow2 (alignof (layout T)) \<and> alignof (layout T) < 2 ^ 32"
  shows "(\<not> list_ex is_abstract Ts
        \<and> (MSC_VER tc \<or> \<not> cxx_alignas tc \<longrightarrow> (\<forall>T\<in>set Ts. alignof (layout T) \<le> 128))
        \<and> (\<not> MSC_VER tc \<and> cxx_alignas tc \<longrightarrow>
              alignas_accepts tc (max_align (map layout Ts))) \<longrightarrow>
      (\<exists>U. AlignedCharArrayUnion_checked tc Ts = Inr U
        \<and> (\<forall>T\<in>set Ts. alignof (layout T) \<le> alignof U \<and> sizeof (layout T) \<le> sizeof U)))
    \<and> (list_ex is_abstract Ts \<longrightarrow>
      AlignedCharArrayUnion_checked tc Ts = Inl Member_of_abstract_type)
    \<and> (\<not> list_ex is_abstract Ts \<and> (MSC_VER tc \<or> \<not> cxx_alignas tc)
        \<and> (\<exists>T\<in>set Ts. 128 < alignof (layout T)) \<longrightarrow>
      AlignedCharArrayUnion_checked tc Ts = Inl Incomplete_type)
    \<and> (\<not> list_ex is_abstract Ts \<and> \<not> MSC_VER tc \<and> cxx_alignas tc
        \<and> \<not> alignas_accepts tc (max_align (map layout Ts)) \<longrightarrow>
      AlignedCharArrayUnion_checked tc Ts = Inl Invalid_alignment)"
proof -
  let ?Ls = "map layout Ts"
  let ?A = "max_align ?Ls" and ?S = "max_size (template_arguments ?Ls)"
  from pow have powL: "\<forall>T\<in>set ?Ls. is_pow2 (alignof T)"
    and boundL: "\<forall>T\<in>set ?Ls. alignof T < 2 ^ 32" by auto
  have powA: "is_pow2 ?A" using powL by (rule max_align_pow2)
  then have posA: "0 < ?A" by (auto simp: is_pow2_iff)
  have "?A < 2 ^ 32" using boundL by (rule max_align_bound)
  then have unfold: "AlignedCharArrayUnion tc ?Ls = AlignedCharArray tc ?A ?S"
    using args by (intro AlignedCharArrayUnion_unfold) simp_all
  have abstract: "AlignedCharArrayUnion_checked tc Ts = Inl Member_of_abstract_type"
    if "list_ex is_abstract Ts"
    using that args by (simp add: AlignedCharArrayUnion_checked_def)
  have concrete: "AlignedCharArrayUnion_checked tc Ts = AlignedCharArray tc ?A ?S"
    if "\<not> list_ex is_abstract Ts"
    using that args unfold by (simp add: AlignedCharArrayUnion_checked_def)
  have hosted: "\<exists>U. AlignedCharArrayUnion_checked tc Ts = Inr U
        \<and> (\<forall>T\<in>set Ts. alignof (layout T) \<le> alignof U \<and> sizeof (layout T) \<le> sizeof U)"
    if na: "\<not> list_ex is_abstract Ts"
      and small: "MSC_VER tc \<or> \<not> cxx_alignas tc \<longrightarrow> (\<forall>T\<in>set Ts. alignof (layout T) \<le> 128)"
      and acc: "\<not> MSC_VER tc \<and> cxx_alignas tc \<longrightarrow> alignas_accepts tc ?A"
  proof -
    have pre: "MSC_VER tc \<or> \<not> cxx_alignas tc \<longrightarrow> ?A \<in> {1, 2, 4, 8, 16, 32, 64, 128}"
    proof
      assume "MSC_VER tc \<or> \<not> cxx_alignas tc"
      with small have "\<forall>T\<in>set ?Ls. alignof T \<le> 128" by simp
      then have "?A \<le> 128" by (rule max_align_small)
      with powA show "?A \<in> {1, 2, 4, 8, 16, 32, 64, 128}" by (rule is_pow2_small)
    qed
    from AlignedCharArray_bounds [OF tc posA pre acc, of ?S]
    obtain U where U: "AlignedCharArray tc ?A ?S = Inr U"
      "alignof U = ?A" "?S \<le> sizeof U" by blast
    have "alignof (layout T) \<le> alignof U \<and> sizeof (layout T) \<le> sizeof U"
      if "T \<in> set Ts" for T
    proof
      from that have mem: "layout T \<in> set ?Ls" by simp
      then show "alignof (layout T) \<le> alignof U" using U(2) by (simp add: max_align_ge)
      from mem have "layout T \<in> set (template_arguments ?Ls)"
        using template_arguments_keep by blast
      then have "sizeof (layout T) \<le> ?S" by (rule max_size_ge)
      then show "sizeof (layout T) \<le> sizeof U" using U(3) by simp
    qed
    with U(1) concrete [OF na] show ?thesis by auto
  qed
  have rejected: "AlignedCharArrayUnion_checked tc Ts = Inl Incomplete_type"
    if na: "\<not> list_ex is_abstract Ts" and "MSC_VER tc \<or> \<not> cxx_alignas tc"
      and "\<exists>T\<in>set Ts. 128 < alignof (layout T)"
  proof -
    from that(3) obtain T where "T \<in> set Ts" "128 < alignof (layout T)" by blast
    then have "128 < ?A" using max_align_ge [of "layout T" ?Ls] by simp
    moreover from that(2) tc
    have "MSC_VER tc \<or> (\<not> cxx_alignas tc \<and> GNUC_or_IBM_ATTRIBUTES tc)" by blast
    ultimately show ?thesis using concrete [OF na] by (simp add: AlignedCharArray_rejected)
  qed
  have invalid: "AlignedCharArrayUnion_checked tc Ts = Inl Invalid_alignment"
    if na: "\<not> list_ex is_abstract Ts" and "\<not> MSC_VER tc" "cxx_alignas tc"
      and "\<not> alignas_accepts tc ?A"
    using that concrete [OF na] by (simp add: AlignedCharArray_invalid)
  from hosted abstract rejected invalid show ?thesis by blast
qed

text \<open>
  The witness: with GNU attributes, a 4-byte and an 8-byte candidate are hosted, a
  candidate aligned to 256 bytes is rejected, and so is an abstract candidate; with
  \<^verbatim>\<open>alignas\<close>, the candidate aligned to 256 bytes is hosted.
\<close>

theorem AlignedCharArrayUnion_hosts_every_candidate_witness:
  "(\<exists>U. AlignedCharArrayUnion_checked
          \<lparr>MSC_VER = False, cxx_alignas = False, GNUC_or_IBM_ATTRIBUTES = True, alignas_accepts = (\<lambda>A. False)\<rparr>
          [Object_type \<lparr>sizeof = 4, alignof = 4\<rparr>, Object_type \<lparr>sizeof = 8, alignof = 8\<rparr>] = Inr U
     \<and> 4 \<le> alignof U \<and> 4 \<le> sizeof U \<and> 8 \<le> alignof U \<and> 8 \<le> sizeof U)
   \<and> AlignedCharArrayUnion_checked
          \<lparr>MSC_VER = False, cxx_alignas = False, GNUC_or_IBM_ATTRIBUTES = True, alignas_accepts = (\<lambda>A. False)\<rparr>
          [Object_type \<lparr>sizeof = 4, alignof = 4\<rparr>, Object_type \<lparr>sizeof = 512, alignof = 256\<rparr>]
        = Inl Incomplete_type
   \<and> AlignedCharArrayUnion_checked
          \<lparr>MSC_VER = False, cxx_alignas = False, GNUC_or_IBM_ATTRIBUTES = True, alignas_accepts = (\<lambda>A. False)\<rparr>
          [Object_type \<lparr>sizeof = 4, alignof = 4\<rparr>, Abstract_class \<lparr>sizeof = 16, alignof = 8\<rparr>]
        = Inl Member_of_abstract_type
   \<and> (\<exists>U. AlignedCharArrayUnion_checked
          \<lparr>MSC_VER = False, cxx_alignas = True, GNUC_or_IBM_ATTRIBUTES = True, alignas_accepts = (\<lambda>A. A dvd 2 ^ 28)\<rparr>
          [Object_type \<lparr>sizeof = 4, alignof = 4\<rparr>, Object_type \<lparr>sizeof = 512, alignof = 256\<rparr>] = Inr U
     \<and> 4 \<le> alignof U \<and> 4 \<le> sizeof U \<and> 256 \<le> alignof U \<and> 512 \<le> sizeof U)"
  using AlignedCharArrayUnion_hosts_every_candidate
    [of "\<lparr>MSC_VER = False, cxx_alignas = False, GNUC_or_IBM_ATTRIBUTES = True, alignas_accepts = (\<lambda>A. False)\<rparr>"
        "[Object_type \<lparr>sizeof = 4, alignof = 4\<rparr>, Object_type \<lparr>sizeof = 8, alignof = 8\<rparr>]"]
    AlignedCharArrayUnion_hosts_every_candidate
    [of "\<lparr>MSC_VER = False, cxx_alignas = False, GNUC_or_IBM_ATTRIBUTES = True, alignas_accepts = (\<lambda>A. False)\<rparr>"
        "[Object_type \<lparr>sizeof = 4, alignof = 4\<rparr>, Object_type \<lparr>sizeof = 512, alignof = 256\<rparr>]"]
    AlignedCharArrayUnion_hosts_every_candidate
    [of "\<lparr>MSC_VER = False, cxx_alignas = False, GNUC_or_IBM_ATTRIBUTES = True, alignas_accepts = (\<lambda>A. False)\<rparr>"
        "[Object_type \<lparr>sizeof = 4, alignof = 4\<rparr>, Abstract_class \<lparr>sizeof = 16, alignof = 8\<rparr>]"]
    AlignedCharArrayUnion_hosts_every_candidate
    [of "\<lparr>MSC_VER = False, cxx_alignas = True, GNUC_or_IBM_ATTRIBUTES = True, alignas_accepts = (\<lambda>A. A dvd 2 ^ 28)\<rparr>"
        "[Object_type \<lparr>sizeof = 4, alignof = 4\<rparr>, Object_type \<lparr>sizeof = 512, alignof = 256\<rparr>]"]
  by (simp add: is_pow2.simps)

text \<open>
  C4. For a list of candidate types with positive alignments that fit
  \<^verbatim>\<open>unsigned int\<close>: the alignment of \<^verbatim>\<open>detail::AlignerImpl\<close>, and the value
  \<^verbatim>\<open>AlignOf<detail::AlignerImpl<...>>::Alignment\<close> that is passed on, is the maximum
  of the candidates' alignments; \<^verbatim>\<open>sizeof(detail::SizerImpl<...>)\<close> is the maximum
  of the candidates' sizes rounded up to the alignment of the union, which is 1, so
  that it is the maximum itself.
\<close>

theorem MaxAlignment_and_MaxSize:
  assumes "Ts \<noteq> []" and "\<forall>T\<in>set Ts. 0 < alignof T \<and> alignof T < 2 ^ 32"
  shows "alignof (AlignerImpl Ts) = Max (alignof ` set Ts)
    \<and> unat (Alignment (AlignOf (AlignerImpl Ts))) = Max (alignof ` set Ts)
    \<and> sizeof (SizerImpl Ts) = round_up (Max (sizeof ` set Ts)) (alignof (SizerImpl Ts))
    \<and> alignof (SizerImpl Ts) = 1
    \<and> sizeof (SizerImpl Ts) = Max (sizeof ` set Ts)"
proof -
  have A: "max_align Ts = Max (alignof ` set Ts)"
    using assms by (intro max_align_Max) auto
  have "max_align Ts < 2 ^ 32"
  proof (rule max_align_cases [where P = "\<lambda>a. a < 2 ^ 32"])
    show "(1::nat) < 2 ^ 32" by simp
    show "\<forall>m\<in>set Ts. alignof m < 2 ^ 32" using assms(2) by blast
  qed
  then have "unat (Alignment (AlignOf (AlignerImpl Ts))) = max_align Ts"
    by (rule Alignment_AlignerImpl)
  moreover have "max_size Ts = Max (sizeof ` set Ts)"
    using assms(1) by (rule max_size_Max)
  ultimately show ?thesis
    using A by (simp add: AlignerImpl_alignof SizerImpl_layout round_up_one)
qed

text \<open>The witness: ten candidates, the largest of 24 bytes with alignment 8.\<close>

theorem MaxAlignment_and_MaxSize_witness:
  "alignof (AlignerImpl [\<lparr>sizeof = 4, alignof = 4\<rparr>, \<lparr>sizeof = 24, alignof = 8\<rparr>,
      \<lparr>sizeof = 2, alignof = 2\<rparr>, char_type, char_type, char_type, char_type, char_type,
      char_type, char_type]) = 8
   \<and> unat (Alignment (AlignOf (AlignerImpl [\<lparr>sizeof = 4, alignof = 4\<rparr>,
      \<lparr>sizeof = 24, alignof = 8\<rparr>, \<lparr>sizeof = 2, alignof = 2\<rparr>, char_type, char_type,
      char_type, char_type, char_type, char_type, char_type]))) = 8
   \<and> sizeof (SizerImpl [\<lparr>sizeof = 4, alignof = 4\<rparr>, \<lparr>sizeof = 24, alignof = 8\<rparr>,
      \<lparr>sizeof = 2, alignof = 2\<rparr>, char_type, char_type, char_type, char_type, char_type,
      char_type, char_type]) = 24"
  using MaxAlignment_and_MaxSize [of "[\<lparr>sizeof = 4, alignof = 4\<rparr>,
      \<lparr>sizeof = 24, alignof = 8\<rparr>, \<lparr>sizeof = 2, alignof = 2\<rparr>, char_type, char_type,
      char_type, char_type, char_type, char_type, char_type]"]
  by (simp add: char_type_def round_up_one)

text \<open>
  C7. For two candidate types with positive sizes and positive alignments that fit
  \<^verbatim>\<open>unsigned int\<close>, the eight defaulted arguments are \<^verbatim>\<open>char\<close>, of size 1 and
  alignment 1, and change neither maximum: \<^verbatim>\<open>AlignedCharArrayUnion<T1, T2>\<close> is the
  storage of the direct two-type computation, and the storage computed from an
  aggregate and a union of the two candidates alone.
\<close>

theorem AlignedCharArrayUnion_defaults_no_op:
  assumes "0 < alignof T1" and "0 < alignof T2"
    and "alignof T1 < 2 ^ 32" and "alignof T2 < 2 ^ 32"
    and "0 < sizeof T1" and "0 < sizeof T2"
  shows "template_arguments [T1, T2] = [T1, T2, char_type, char_type, char_type, char_type,
      char_type, char_type, char_type, char_type]
    \<and> sizeof char_type = 1 \<and> alignof char_type = 1
    \<and> unat (Alignment (AlignOf (AlignerImpl (template_arguments [T1, T2]))))
        = max (alignof T1) (alignof T2)
    \<and> sizeof (SizerImpl (template_arguments [T1, T2])) = max (sizeof T1) (sizeof T2)
    \<and> AlignedCharArrayUnion tc [T1, T2] = direct_two_type_storage tc T1 T2
    \<and> AlignedCharArrayUnion tc [T1, T2] =
        AlignedCharArray tc (unat (Alignment (AlignOf (AlignerImpl [T1, T2]))))
          (sizeof (SizerImpl [T1, T2]))"
proof -
  let ?Ts = "template_arguments [T1, T2]"
  have args: "?Ts = [T1, T2, char_type, char_type, char_type, char_type,
      char_type, char_type, char_type, char_type]"
    by (simp add: template_arguments_def numeral_eq_Suc)
  have A: "max_align ?Ts = max (alignof T1) (alignof T2)"
    using assms(1) by (simp add: max_align_template_arguments)
  have A2: "max_align [T1, T2] = max (alignof T1) (alignof T2)"
    using assms(1) by simp
  have S: "max_size ?Ts = max (sizeof T1) (sizeof T2)"
    using assms(5) by (simp add: args char_type_def)
  have bound: "max (alignof T1) (alignof T2) < 2 ^ 32"
    using assms(3,4) by simp
  have align: "unat (Alignment (AlignOf (AlignerImpl ?Ts))) = max (alignof T1) (alignof T2)"
    using bound A Alignment_AlignerImpl [of ?Ts] by simp
  have align2: "unat (Alignment (AlignOf (AlignerImpl [T1, T2]))) = max (alignof T1) (alignof T2)"
    using bound A2 Alignment_AlignerImpl [of "[T1, T2]"] by simp
  have size: "sizeof (SizerImpl ?Ts) = max (sizeof T1) (sizeof T2)"
    using S by (simp add: SizerImpl_layout)
  have size2: "sizeof (SizerImpl [T1, T2]) = max (sizeof T1) (sizeof T2)"
    by (simp add: SizerImpl_layout)
  have "AlignedCharArrayUnion tc [T1, T2] =
      AlignedCharArray tc (max (alignof T1) (alignof T2)) (max (sizeof T1) (sizeof T2))"
    using align size by (simp add: AlignedCharArrayUnion_def Let_def)
  then show ?thesis
    using args align size align2 size2
    by (simp add: direct_two_type_storage_def char_type_def)
qed

text \<open>The witness: a 4-byte and an 8-byte candidate with GNU attributes.\<close>

theorem AlignedCharArrayUnion_defaults_no_op_witness:
  "AlignedCharArrayUnion \<lparr>MSC_VER = False, cxx_alignas = False, GNUC_or_IBM_ATTRIBUTES = True, alignas_accepts = (\<lambda>A. False)\<rparr>
      [\<lparr>sizeof = 4, alignof = 4\<rparr>, \<lparr>sizeof = 8, alignof = 8\<rparr>]
    = direct_two_type_storage
        \<lparr>MSC_VER = False, cxx_alignas = False, GNUC_or_IBM_ATTRIBUTES = True, alignas_accepts = (\<lambda>A. False)\<rparr>
        \<lparr>sizeof = 4, alignof = 4\<rparr> \<lparr>sizeof = 8, alignof = 8\<rparr>
   \<and> direct_two_type_storage
        \<lparr>MSC_VER = False, cxx_alignas = False, GNUC_or_IBM_ATTRIBUTES = True, alignas_accepts = (\<lambda>A. False)\<rparr>
        \<lparr>sizeof = 4, alignof = 4\<rparr> \<lparr>sizeof = 8, alignof = 8\<rparr>
    = Inr \<lparr>sizeof = 8, alignof = 8\<rparr>"
proof -
  have "direct_two_type_storage
        \<lparr>MSC_VER = False, cxx_alignas = False, GNUC_or_IBM_ATTRIBUTES = True, alignas_accepts = (\<lambda>A. False)\<rparr>
        \<lparr>sizeof = 4, alignof = 4\<rparr> \<lparr>sizeof = 8, alignof = 8\<rparr>
    = Inr \<lparr>sizeof = 8, alignof = 8\<rparr>"
    by (simp add: direct_two_type_storage_def AlignedCharArray_def struct_type_def
        aligned_as_def char_array_def round_up_def)
  then show ?thesis
    using AlignedCharArrayUnion_defaults_no_op
      [of "\<lparr>sizeof = 4, alignof = 4\<rparr>" "\<lparr>sizeof = 8, alignof = 8\<rparr>"
          "\<lparr>MSC_VER = False, cxx_alignas = False, GNUC_or_IBM_ATTRIBUTES = True, alignas_accepts = (\<lambda>A. False)\<rparr>"]
    by simp
qed

end
